theory Spec2Isabelle
  imports Complex_Main
begin

section \<open>JavaScript numbers used as configuration values\<close>

text \<open>
  A JavaScript number is NaN, an infinity, or a finite value; the finite values are carried
  as rationals (every double is one).
\<close>

datatype js_number = NaN | PosInf | NegInf | Fin rat

text \<open>
  \<open>opts.maxRows\<close> and \<open>options.containerDepth\<close> are documented as numbers, and nothing checks
  what is passed. A value passed for them is \<open>undefined\<close> (also what an omitted property
  reads as), \<open>null\<close>, a boolean, a number, or something else: a string, an array, an object.
  The code reads such a value in two ways only, by its truthiness (\<open>v || 3\<close>) and by its
  conversion to a number (\<open>Number(v)\<close>, \<open>i < v\<close>), so that is what \<open>COther\<close> carries:
  \<open>"5"\<close> is \<open>COther True (Fin 5)\<close>, \<open>"abc"\<close> is \<open>COther True NaN\<close>, \<open>"0"\<close> is
  \<open>COther True (Fin 0)\<close>, \<open>""\<close> is \<open>COther False (Fin 0)\<close>, \<open>[7]\<close> is \<open>COther True (Fin 7)\<close>.
  (A value whose conversion throws, a symbol, is not carried.)
\<close>

datatype js_cfg = CUndefined | CNull | CBool bool | CNum js_number | COther bool js_number

text \<open>\<open>Number(v)\<close>, which is also the conversion of the operand \<open>v\<close> in \<open>i < v\<close>.\<close>

fun ToNumber :: "js_cfg \<Rightarrow> js_number" where
  "ToNumber CUndefined = NaN"
| "ToNumber CNull = Fin 0"
| "ToNumber (CBool b) = Fin (if b then 1 else 0)"
| "ToNumber (CNum n) = n"
| "ToNumber (COther t n) = n"

text \<open>Truthiness of a number: NaN and zero are falsy.\<close>

fun truthy_num :: "js_number \<Rightarrow> bool" where
  "truthy_num NaN = False"
| "truthy_num (Fin q) = (q \<noteq> 0)"
| "truthy_num PosInf = True"
| "truthy_num NegInf = True"

text \<open>Truthiness of a value passed for an option.\<close>

fun truthy_cfg :: "js_cfg \<Rightarrow> bool" where
  "truthy_cfg CUndefined = False"
| "truthy_cfg CNull = False"
| "truthy_cfg (CBool b) = b"
| "truthy_cfg (CNum n) = truthy_num n"
| "truthy_cfg (COther t n) = t"

text \<open>\<open>n || d\<close> on numbers.\<close>

definition num_or :: "js_number \<Rightarrow> js_number \<Rightarrow> js_number" where
  "num_or n d = (if truthy_num n then n else d)"

text \<open>\<open>i < m\<close> for a non-negative integer \<open>i\<close> (a count or a loop index) and a number \<open>m\<close>.\<close>

fun nat_less_num :: "nat \<Rightarrow> js_number \<Rightarrow> bool" where
  "nat_less_num i NaN = False"
| "nat_less_num i PosInf = True"
| "nat_less_num i NegInf = False"
| "nat_less_num i (Fin q) = (of_nat i < q)"

text \<open>\<open>s || d\<close> on strings: the empty string is falsy.\<close>

definition str_or :: "string \<Rightarrow> string \<Rightarrow> string" where
  "str_or s d = (if s \<noteq> [] then s else d)"

section \<open>Subgrids: \<open>library.grid.limitSubgridAdds\<close>\<close>

text \<open>
  An Add control, with the state \<open>showAdd\<close> and \<open>hideAdd\<close> write: the class list, the two
  inline style properties, the three attributes and \<open>tabIndex\<close>. An absent attribute or
  style property is \<open>None\<close>.
\<close>

record button =
  classList :: "string list"
  style_display :: "string option"
  style_visibility :: "string option"
  attr_hidden :: "string option"
  aria_hidden :: "string option"
  aria_disabled :: "string option"
  tabIndex :: int

text \<open>A \<open>tr\<close> of a table body, with its \<open>data-entity\<close> attribute.\<close>

record row =
  data_entity :: "string option"

text \<open>
  A grid element. \<open>view_table\<close> is the result of \<open>grid.querySelector(".view-grid table")\<close>:
  \<open>None\<close> when there is no such table, otherwise the \<open>tbody tr\<close> rows of that table in
  document order. \<open>select_buttons sel\<close> is \<open>grid.querySelectorAll(sel)\<close>, as positions in the
  page's store of buttons (two grids may match the same button).
\<close>

record grid =
  view_table :: "row list option"
  select_buttons :: "string \<Rightarrow> nat list"

text \<open>
  The page: the ids of the elements that carry an id together with the text of the style
  element of that id, the store of Add controls, and \<open>document.querySelectorAll(sel)\<close> for
  grids.
\<close>

record page =
  style_elems :: "(string \<times> string) list"
  buttons :: "button list"
  select_grids :: "string \<Rightarrow> grid list"

record grid_opts =
  maxRows :: js_cfg
  entityName :: "string option"
  gridSelector :: "string option"
  addButtonSelector :: "string option"

definition injectStyleOnce :: "page \<Rightarrow> page" where
  "injectStyleOnce p =
     (if ''pp-subgrid-add-toggle'' \<in> set (map fst (style_elems p)) then p
      else p\<lparr>style_elems := style_elems p @
             [(''pp-subgrid-add-toggle'',
               ''.entity-grid.subgrid .view-toolbar .create-action{display:none!important;}'' @
               ''.entity-grid.subgrid .view-toolbar .create-action.pp-show-add{display:inline-flex!important;}'')]\<rparr>)"

text \<open>
  \<open>tbody tr[data-entity="N"]\<close> selects the rows whose \<open>data-entity\<close> attribute is \<open>N\<close>
  (for a name free of quotes and backslashes, as entity logical names are).
\<close>

definition countRows :: "grid \<Rightarrow> string \<Rightarrow> nat" where
  "countRows g entity =
     (case view_table g of
        None \<Rightarrow> 0
      | Some rows \<Rightarrow>
          (let count = (if entity \<noteq> [] then length (filter (\<lambda>r. data_entity r = Some entity) rows) else 0)
           in if count = 0 then length rows else count))"

definition showAdd :: "button \<Rightarrow> button" where
  "showAdd btn =
     btn\<lparr>classList := (if ''pp-show-add'' \<in> set (classList btn) then classList btn
                        else classList btn @ [''pp-show-add'']),
         style_display := None,
         style_visibility := None,
         attr_hidden := None,
         aria_hidden := Some ''false'',
         aria_disabled := Some ''false'',
         tabIndex := 0\<rparr>"

definition hideAdd :: "button \<Rightarrow> button" where
  "hideAdd btn =
     btn\<lparr>classList := filter (\<lambda>c. c \<noteq> ''pp-show-add'') (classList btn),
         style_display := None,
         attr_hidden := Some ''true'',
         aria_hidden := Some ''true'',
         aria_disabled := Some ''true'',
         tabIndex := - 1\<rparr>"

definition MAX_ROWS :: "grid_opts option \<Rightarrow> js_number" where
  "MAX_ROWS opts = num_or (ToNumber (case opts of None \<Rightarrow> CUndefined | Some o' \<Rightarrow> maxRows o')) (Fin 3)"

definition ENTITY_NAME :: "grid_opts option \<Rightarrow> string" where
  "ENTITY_NAME opts =
     str_or (case opts of None \<Rightarrow> [] | Some o' \<Rightarrow> (case entityName o' of None \<Rightarrow> [] | Some s \<Rightarrow> s)) []"

definition GRID_SELECTOR :: "grid_opts option \<Rightarrow> string" where
  "GRID_SELECTOR opts =
     str_or (case opts of None \<Rightarrow> [] | Some o' \<Rightarrow> (case gridSelector o' of None \<Rightarrow> [] | Some s \<Rightarrow> s))
       ''.entity-grid.subgrid''"

definition ADD_BUTTON_SELECTOR :: "grid_opts option \<Rightarrow> string" where
  "ADD_BUTTON_SELECTOR opts =
     str_or (case opts of None \<Rightarrow> [] | Some o' \<Rightarrow> (case addButtonSelector o' of None \<Rightarrow> [] | Some s \<Rightarrow> s))
       ''.view-toolbar .create-action''"

text \<open>\<open>Array.from(buttons).forEach(f)\<close> on the store: each matched button in turn.\<close>

fun forEach_button :: "(button \<Rightarrow> button) \<Rightarrow> nat list \<Rightarrow> button list \<Rightarrow> button list" where
  "forEach_button f [] bs = bs"
| "forEach_button f (i # is) bs = forEach_button f is (bs[i := f (bs ! i)])"

definition toggleInGrid :: "grid_opts option \<Rightarrow> grid \<Rightarrow> button list \<Rightarrow> button list" where
  "toggleInGrid opts g bs =
     (let rows = countRows g (ENTITY_NAME opts);
          matched = select_buttons g (ADD_BUTTON_SELECTOR opts)
      in if nat_less_num rows (MAX_ROWS opts) then forEach_button showAdd matched bs
         else forEach_button hideAdd matched bs)"

fun forEach_grid :: "grid_opts option \<Rightarrow> grid list \<Rightarrow> button list \<Rightarrow> button list" where
  "forEach_grid opts [] bs = bs"
| "forEach_grid opts (g # gs) bs = forEach_grid opts gs (toggleInGrid opts g bs)"

definition toggleAll :: "grid_opts option \<Rightarrow> page \<Rightarrow> page" where
  "toggleAll opts p = p\<lparr>buttons := forEach_grid opts (select_grids p (GRID_SELECTOR opts)) (buttons p)\<rparr>"

text \<open>
  \<open>limitSubgridAdds\<close> up to the point where it returns: the style is injected and every grid
  is toggled once. The mutation observer it registers runs \<open>toggleAll\<close> with the same options
  on every notification.
\<close>

definition limitSubgridAdds :: "grid_opts option \<Rightarrow> page \<Rightarrow> page" where
  "limitSubgridAdds opts p = toggleAll opts (injectStyleOnce p)"

definition on_mutation :: "grid_opts option \<Rightarrow> page \<Rightarrow> page" where
  "on_mutation opts p = toggleAll opts p"

text \<open>The states the two branches of \<open>toggleInGrid\<close> leave a control in.\<close>

definition shown_state :: "button \<Rightarrow> bool" where
  "shown_state b \<longleftrightarrow>
     attr_hidden b = None \<and> aria_hidden b = Some ''false'' \<and> aria_disabled b = Some ''false'' \<and>
     tabIndex b = 0"

definition hidden_state :: "button \<Rightarrow> bool" where
  "hidden_state b \<longleftrightarrow>
     attr_hidden b = Some ''true'' \<and> aria_hidden b = Some ''true'' \<and> aria_disabled b = Some ''true'' \<and>
     tabIndex b = - 1"

text \<open>The rows of the grid's table body; a grid without the table has none.\<close>

definition tbody_rows :: "grid \<Rightarrow> row list" where
  "tbody_rows g = (case view_table g of None \<Rightarrow> [] | Some rows \<Rightarrow> rows)"

definition rows_with_entity :: "grid \<Rightarrow> string \<Rightarrow> row list" where
  "rows_with_entity g F = filter (\<lambda>r. data_entity r = Some F) (tbody_rows g)"

text \<open>\<open>m \<le> i\<close> for a number \<open>m\<close> and a non-negative integer \<open>i\<close>.\<close>

fun num_le_nat :: "js_number \<Rightarrow> nat \<Rightarrow> bool" where
  "num_le_nat NaN i = False"
| "num_le_nat PosInf i = False"
| "num_le_nat NegInf i = True"
| "num_le_nat (Fin q) i = (q \<le> of_nat i)"

section \<open>Conditional fields: \<open>library.form.setupConditionalFields\<close>\<close>

subsection \<open>Strings\<close>

text \<open>
  A string is the list of its code units; the model carries the code units below 256.
  \<open>toUpperCase\<close> and \<open>toLowerCase\<close> are given on the ASCII letters: their results are only
  compared with ASCII literals, and no other code unit below 256 is mapped to an ASCII letter.
\<close>

definition upper_char :: "char \<Rightarrow> char" where
  "upper_char c =
     (case map_of (zip ''abcdefghijklmnopqrstuvwxyz'' ''ABCDEFGHIJKLMNOPQRSTUVWXYZ'') c of
        Some u \<Rightarrow> u | None \<Rightarrow> c)"

definition lower_char :: "char \<Rightarrow> char" where
  "lower_char c =
     (case map_of (zip ''ABCDEFGHIJKLMNOPQRSTUVWXYZ'' ''abcdefghijklmnopqrstuvwxyz'') c of
        Some l \<Rightarrow> l | None \<Rightarrow> c)"

definition toUpperCase :: "string \<Rightarrow> string" where
  "toUpperCase s = map upper_char s"

definition toLowerCase :: "string \<Rightarrow> string" where
  "toLowerCase s = map lower_char s"

text \<open>
  White space and line terminators below 256: tab, line feed, vertical tab, form feed,
  carriage return, space and no-break space.
\<close>

definition is_space :: "char \<Rightarrow> bool" where
  "is_space c \<longleftrightarrow> c \<in> set [CHR 0x09, CHR 0x0A, CHR 0x0B, CHR 0x0C, CHR 0x0D, CHR 0x20, CHR 0xA0]"

definition trim :: "string \<Rightarrow> string" where
  "trim s = rev (dropWhile is_space (rev (dropWhile is_space s)))"

definition is_digit :: "char \<Rightarrow> bool" where
  "is_digit c \<longleftrightarrow> c \<in> set ''0123456789''"

text \<open>The regular expression \<open>/^-?\d+$/\<close>: an optional minus sign, then one or more digits.\<close>

definition int_literal :: "string \<Rightarrow> bool" where
  "int_literal v =
     (let ds = (case v of [] \<Rightarrow> [] | c # cs \<Rightarrow> if c = CHR ''-'' then cs else v)
      in ds \<noteq> [] \<and> list_all is_digit ds)"

definition digit_val :: "char \<Rightarrow> int" where
  "digit_val c =
     (case map_of (zip ''0123456789'' [0, 1, 2, 3, 4, 5, 6, 7, 8, 9]) c of Some d \<Rightarrow> d | None \<Rightarrow> 0)"

text \<open>The integer a run of decimal digits denotes.\<close>

definition digits_val :: "string \<Rightarrow> int" where
  "digits_val ds = foldl (\<lambda>acc c. 10 * acc + digit_val c) 0 ds"

text \<open>
  \<open>parseInt(v, 10)\<close> on a string that matches the regular expression: the integer the
  literal denotes.
\<close>

definition parseInt10 :: "string \<Rightarrow> int" where
  "parseInt10 v =
     (case v of [] \<Rightarrow> 0
      | c # cs \<Rightarrow> if c = CHR ''-'' then - digits_val cs else digits_val v)"

subsection \<open>Values\<close>

text \<open>
  A scalar is a string or a number. \<open>parseInt\<close> returns a double: the integer itself when
  its magnitude is at most \<open>2 ^ 53\<close> (\<open>Num\<close>), otherwise a double near it (\<open>Approx\<close>, which
  carries the integer the literal denotes, not the double).
\<close>

datatype scalar = Num int | Approx int | Str string

datatype js_value = VBool bool | VScalar scalar | VSeq "scalar list"

definition coerceNumber :: "string \<Rightarrow> scalar" where
  "coerceNumber v =
     (if int_literal v
      then (let n = parseInt10 v in if \<bar>n\<bar> \<le> 2 ^ 53 then Num n else Approx n)
      else Str v)"

subsection \<open>Elements and the document\<close>

text \<open>An element is named by its position in the document's list of elements (tree order).\<close>

type_synonym node = nat

text \<open>An \<open>option\<close> element of a \<open>select\<close>: its value and its selectedness.\<close>

record option_elem =
  opt_value :: string
  selected :: bool

text \<open>
  An element, with what the engine reads and writes. \<open>type_prop\<close> and \<open>value_prop\<close> are the
  \<open>type\<close> and \<open>value\<close> properties, \<open>None\<close> where the element has no such property
  (\<open>undefined\<close>); \<open>name_attr\<close> is the \<open>name\<close> content attribute, which the \<open>name\<close> property
  reflects; \<open>checked\<close> and \<open>multiple\<close> read as false where they are \<open>undefined\<close>. The value of
  a \<open>select\<close> is not stored: it is read from and written to its options. An \<open>input\<close>,
  \<open>select\<close> or \<open>textarea\<close> always has a string \<open>value\<close>. \<open>value_after_empty\<close> is what
  \<open>value\<close> reads after the empty string is written to it, which the value sanitization of
  the element's type decides: the empty string for a text field, \<open>"#000000"\<close> for a color
  input, the default value (\<open>"50"\<close> when no bounds are set) for a range input. \<open>parent\<close> is
  \<open>parentElement\<close>, \<open>display\<close> is \<open>style.display\<close>.
\<close>

record element =
  tagName :: string
  type_prop :: "string option"
  name_attr :: "string option"
  checked :: bool
  multiple :: bool
  value_prop :: "string option"
  value_after_empty :: string
  options :: "option_elem list"
  parent :: "node option"
  display :: string

definition el_tag :: "element \<Rightarrow> string" where
  "el_tag e = toUpperCase (tagName e)"

definition el_type :: "element \<Rightarrow> string" where
  "el_type e = toLowerCase (case type_prop e of None \<Rightarrow> [] | Some t \<Rightarrow> t)"

definition el_name :: "element \<Rightarrow> string" where
  "el_name e = (case name_attr e of None \<Rightarrow> [] | Some n \<Rightarrow> n)"

text \<open>
  The \<open>value\<close> getter: a \<open>select\<close> gives the value of its first selected option, or the
  empty string when none is selected.
\<close>

definition get_value :: "element \<Rightarrow> string option" where
  "get_value e =
     (if el_tag e = ''SELECT''
      then (case List.find selected (options e) of None \<Rightarrow> Some [] | Some o' \<Rightarrow> Some (opt_value o'))
      else value_prop e)"

text \<open>\<open>el.value || ""\<close>.\<close>

definition value_or_empty :: "element \<Rightarrow> string" where
  "value_or_empty e = (case get_value e of None \<Rightarrow> [] | Some v \<Rightarrow> v)"

definition selectedOptions :: "element \<Rightarrow> option_elem list" where
  "selectedOptions e = filter selected (options e)"

text \<open>
  Selecting the first option that has the given value, all others deselected: what the
  \<open>value\<close> setter of a \<open>select\<close> does.
\<close>

fun select_first :: "string \<Rightarrow> option_elem list \<Rightarrow> option_elem list" where
  "select_first v [] = []"
| "select_first v (o' # os) =
     (if opt_value o' = v then o'\<lparr>selected := True\<rparr> # map (\<lambda>x. x\<lparr>selected := False\<rparr>) os
      else o'\<lparr>selected := False\<rparr> # select_first v os)"

text \<open>
  \<open>el.value = ""\<close>: a \<open>select\<close> selects its first option whose value is the empty string and
  deselects the others; any other element then holds what its value sanitization makes of the
  empty string.
\<close>

definition set_value_empty :: "element \<Rightarrow> element" where
  "set_value_empty e =
     (if el_tag e = ''SELECT'' then e\<lparr>options := select_first [] (options e)\<rparr>
      else e\<lparr>value_prop := Some (value_after_empty e)\<rparr>)"

text \<open>\<open>el.selectedIndex = -1\<close>: every option deselected.\<close>

definition clear_selectedIndex :: "element \<Rightarrow> element" where
  "clear_selectedIndex e = e\<lparr>options := map (\<lambda>x. x\<lparr>selected := False\<rparr>) (options e)\<rparr>"



text \<open>
  \<open>document.querySelectorAll('input[type="radio"][name="N"]')\<close>: the \<open>input\<close> elements in the
  radio state whose \<open>name\<close> attribute is \<open>N\<close>, in tree order (for a name free of quotes and
  backslashes). The \<open>type\<close> property of an \<open>input\<close> is the lower-case keyword of its state.
\<close>

definition in_radio_group :: "string \<Rightarrow> element \<Rightarrow> bool" where
  "in_radio_group n e \<longleftrightarrow>
     el_tag e = ''INPUT'' \<and> type_prop e = Some ''radio'' \<and> name_attr e = Some n"

definition radio_group :: "element list \<Rightarrow> string \<Rightarrow> node list" where
  "radio_group els n = filter (\<lambda>i. in_radio_group n (els ! i)) [0..<length els]"

definition val :: "element list \<Rightarrow> node option \<Rightarrow> js_value" where
  "val els el =
     (case el of
        None \<Rightarrow> VScalar (Str [])
      | Some n \<Rightarrow>
          (let e = els ! n; tag = el_tag e; type = el_type e in
           if type = ''checkbox'' then VBool (checked e)
           else if type = ''radio'' then
             (case List.find (\<lambda>r. checked (els ! r)) (radio_group els (el_name e)) of
                None \<Rightarrow> VScalar (coerceNumber [])
              | Some r \<Rightarrow> VScalar (coerceNumber (value_or_empty (els ! r))))
           else if tag = ''SELECT'' \<and> multiple e then
             VSeq (map (\<lambda>o'. coerceNumber (opt_value o')) (selectedOptions e))
           else VScalar (coerceNumber (trim (value_or_empty e)))))"

subsection \<open>What \<open>val\<close> throws\<close>

datatype js_error = TypeError | SyntaxError | Error string






subsection \<open>Rules, the evaluation context and the engine's state\<close>

text \<open>
  The object a predicate receives, as the object literal of \<open>apply\<close> writes it: the property
  names in order, each with its member.
\<close>

datatype ctx_prop = CtxVal "string \<Rightarrow> js_value" | CtxGet "string \<Rightarrow> node option" | CtxEl node

type_synonym ctx = "(string \<times> ctx_prop) list"

text \<open>A predicate returns a truth value or throws; it does not write to the document.\<close>

type_synonym predicate = "ctx \<Rightarrow> js_error + bool"

text \<open>
  A rule object: \<open>target\<close>, the optional \<open>deps\<close>, and its function-valued and boolean
  properties under their names (distinct names). A property that is not there reads as
  \<open>undefined\<close>.
\<close>

record rule =
  target :: string
  deps :: "string list option"
  methods :: "(string \<times> predicate) list"
  flags :: "(string \<times> bool) list"

text \<open>A listener the engine added: the element, the event type and the rule of its closure.\<close>

record listener =
  on_node :: node
  on_event :: string
  on_rule :: rule

text \<open>
  The state: the document's elements, the engine's listeners in the order they were added,
  and the synthetic events dispatched so far, each with the nesting depth of the rule
  evaluation that dispatched it (0 for an evaluation that no synthetic event caused).
\<close>

record state =
  elems :: "element list"
  listeners :: "listener list"
  dispatched :: "(nat \<times> node \<times> string) list"

text \<open>
  What the engine is set up with: the browser's selector matching
  (\<open>document.querySelector(s)\<close> as a function of the document, for valid selectors) and the
  container depth.
\<close>

record engine =
  matcher :: "string \<Rightarrow> element list \<Rightarrow> node option"
  containerDepth :: js_number

text \<open>
  The options of \<open>setupConditionalFields\<close>. The \<open>log\<close> option only writes to the console,
  which is not part of the state.
\<close>

record form_opts =
  opt_containerDepth :: js_cfg
  opt_log :: "bool option"

datatype outcome = Returned state | Thrown js_error state

definition querySelector :: "engine \<Rightarrow> element list \<Rightarrow> string \<Rightarrow> node option" where
  "querySelector E els s =
     (case matcher E s els of None \<Rightarrow> None | Some n \<Rightarrow> if n < length els then Some n else None)"

text \<open>\<open>parentElement\<close>: in tree order a parent stands before its children.\<close>

definition parentElement :: "element list \<Rightarrow> node \<Rightarrow> node option" where
  "parentElement els c =
     (case parent (els ! c) of None \<Rightarrow> None | Some p \<Rightarrow> if p < c then Some p else None)"

function fieldWrap :: "js_number \<Rightarrow> element list \<Rightarrow> node \<Rightarrow> nat \<Rightarrow> node" where
  "fieldWrap depth els c i =
     (if nat_less_num i depth
      then (case parentElement els c of None \<Rightarrow> c | Some p \<Rightarrow> fieldWrap depth els p (Suc i))
      else c)"
  by pat_completeness auto
termination
  by (relation "measure (\<lambda>(depth, els, c, i). c)")
     (auto simp: parentElement_def split: option.splits if_splits)

declare fieldWrap.simps [simp del]

text \<open>The path of a bubbling event: the element, then its ancestors.\<close>

function event_path :: "element list \<Rightarrow> node \<Rightarrow> node list" where
  "event_path els n =
     n # (case parentElement els n of None \<Rightarrow> [] | Some p \<Rightarrow> event_path els p)"
  by pat_completeness auto
termination
  by (relation "measure (\<lambda>(els, n). n)")
     (auto simp: parentElement_def split: option.splits if_splits)

declare event_path.simps [simp del]

definition uncheck :: "element \<Rightarrow> element" where
  "uncheck e = e\<lparr>checked := False\<rparr>"

definition deselect_all :: "element \<Rightarrow> element" where
  "deselect_all e = e\<lparr>options := map (\<lambda>x. x\<lparr>selected := False\<rparr>) (options e)\<rparr>"

fun forEach_elem :: "(element \<Rightarrow> element) \<Rightarrow> node list \<Rightarrow> element list \<Rightarrow> element list" where
  "forEach_elem f [] els = els"
| "forEach_elem f (i # is) els = forEach_elem f is (els[i := f (els ! i)])"

text \<open>The writes of \<open>clearValue\<close> to the fields, before it dispatches the two events.\<close>

definition clear_fields :: "element list \<Rightarrow> node \<Rightarrow> element list" where
  "clear_fields els n =
     (let e = els ! n; tag = el_tag e; type = el_type e in
      if type = ''checkbox'' then els[n := uncheck e]
      else if type = ''radio'' then forEach_elem uncheck (radio_group els (el_name e)) els
      else if tag = ''SELECT'' \<and> multiple e then els[n := deselect_all e]
      else if tag = ''SELECT'' then els[n := set_value_empty (clear_selectedIndex e)]
      else els[n := set_value_empty e])"

definition listeners_for :: "state \<Rightarrow> node \<Rightarrow> string \<Rightarrow> listener list" where
  "listeners_for st n evt =
     concat (map (\<lambda>m. filter (\<lambda>l. on_node l = m \<and> on_event l = evt) (listeners st))
                 (event_path (elems st) n))"

text \<open>
  The listeners of an event run in order, each evaluating its rule with \<open>rec\<close>. An exception
  a listener throws is reported by the browser and does not reach the dispatcher; \<open>None\<close> is
  an evaluation that does not come back.
\<close>

fun run_listeners :: "(state \<Rightarrow> rule \<Rightarrow> outcome option) \<Rightarrow> listener list \<Rightarrow> state \<Rightarrow> state option" where
  "run_listeners rec [] st = Some st"
| "run_listeners rec (l # ls) st =
     (case rec st (on_rule l) of
        None \<Rightarrow> None
      | Some (Returned s) \<Rightarrow> run_listeners rec ls s
      | Some (Thrown e s) \<Rightarrow> run_listeners rec ls s)"

text \<open>A native event of type \<open>evt\<close> fired on element \<open>n\<close>.\<close>

definition native_event :: "(state \<Rightarrow> rule \<Rightarrow> outcome option) \<Rightarrow> state \<Rightarrow> node \<Rightarrow> string \<Rightarrow> state option" where
  "native_event rec st n evt = run_listeners rec (listeners_for st n evt) st"

text \<open>\<open>el.dispatchEvent(new Event(evt, { bubbles: true }))\<close> from an evaluation at depth \<open>lvl\<close>.\<close>

definition dispatchEvent ::
  "(state \<Rightarrow> rule \<Rightarrow> outcome option) \<Rightarrow> nat \<Rightarrow> state \<Rightarrow> node \<Rightarrow> string \<Rightarrow> state option" where
  "dispatchEvent rec lvl st n evt =
     native_event rec (st\<lparr>dispatched := dispatched st @ [(lvl, n, evt)]\<rparr>) n evt"

definition clearValue ::
  "(state \<Rightarrow> rule \<Rightarrow> outcome option) \<Rightarrow> nat \<Rightarrow> state \<Rightarrow> node option \<Rightarrow> state option" where
  "clearValue rec lvl st el =
     (case el of
        None \<Rightarrow> Some st
      | Some n \<Rightarrow>
          (case dispatchEvent rec lvl (st\<lparr>elems := clear_fields (elems st) n\<rparr>) n ''change'' of
             None \<Rightarrow> None
           | Some st' \<Rightarrow> dispatchEvent rec lvl st' n ''input''))"

definition make_ctx :: "engine \<Rightarrow> element list \<Rightarrow> node \<Rightarrow> ctx" where
  "make_ctx E els t =
     [(''val'', CtxVal (\<lambda>s. val els (querySelector E els s))),
      (''get'', CtxGet (\<lambda>s. querySelector E els s)),
      (''targetEl'', CtxEl t)]"

definition set_display :: "string \<Rightarrow> element \<Rightarrow> element" where
  "set_display d e = e\<lparr>display := d\<rparr>"

text \<open>
  The body of \<open>apply\<close>, with the evaluation \<open>rec\<close> that the listeners of the events it
  dispatches run. Calling \<open>rule.when\<close> when the rule has no such function throws a TypeError.
\<close>

definition apply_step ::
  "engine \<Rightarrow> (state \<Rightarrow> rule \<Rightarrow> outcome option) \<Rightarrow> nat \<Rightarrow> state \<Rightarrow> rule \<Rightarrow> outcome option" where
  "apply_step E rec lvl st r =
     (case querySelector E (elems st) (target r) of
        None \<Rightarrow> Some (Returned st)
      | Some t \<Rightarrow>
          (case map_of (methods r) ''when'' of
             None \<Rightarrow> Some (Thrown TypeError st)
           | Some w \<Rightarrow>
               (case w (make_ctx E (elems st) t) of
                  Inl e \<Rightarrow> Some (Thrown e st)
                | Inr show \<Rightarrow>
                    (let container = fieldWrap (containerDepth E) (elems st) t 0;
                         st1 = st\<lparr>elems := (elems st)[container :=
                                 set_display (if show then [] else ''none'') (elems st ! container)]\<rparr>
                     in if \<not> show \<and> map_of (flags r) ''clearWhenHidden'' = Some True
                        then map_option Returned (clearValue rec lvl st1 (Some t))
                        else Some (Returned st1)))))"

text \<open>
  \<open>apply\<close> with a bound on how deep evaluations may nest (an evaluation run by a listener of
  a synthetic event that another evaluation dispatched): past the bound the result is
  \<open>None\<close>.
\<close>

primrec apply_fuel :: "engine \<Rightarrow> nat \<Rightarrow> nat \<Rightarrow> state \<Rightarrow> rule \<Rightarrow> outcome option" where
  "apply_fuel E 0 = (\<lambda>lvl st r. None)"
| "apply_fuel E (Suc k) = (\<lambda>lvl. apply_step E (apply_fuel E k (Suc lvl)) lvl)"

text \<open>The listeners \<open>setupConditionalFields\<close> adds for a rule.\<close>

definition depEls :: "engine \<Rightarrow> element list \<Rightarrow> rule \<Rightarrow> node list" where
  "depEls E els r =
     List.map_filter (\<lambda>d. querySelector E els d) (case deps r of None \<Rightarrow> [] | Some ds \<Rightarrow> ds)"

definition new_listeners :: "engine \<Rightarrow> element list \<Rightarrow> rule \<Rightarrow> listener list" where
  "new_listeners E els r =
     concat (map (\<lambda>el. map (\<lambda>evt. \<lparr>on_node = el, on_event = evt, on_rule = r\<rparr>) [''input'', ''change''])
                 (depEls E els r))"

text \<open>\<open>rules.forEach(apply)\<close>: an exception ends the loop and leaves the function.\<close>

fun reapplyAll :: "engine \<Rightarrow> nat \<Rightarrow> rule list \<Rightarrow> state \<Rightarrow> outcome option" where
  "reapplyAll E k [] st = Some (Returned st)"
| "reapplyAll E k (r # rs) st =
     (case apply_fuel E k 0 st r of
        None \<Rightarrow> None
      | Some (Thrown e s) \<Rightarrow> Some (Thrown e s)
      | Some (Returned s) \<Rightarrow> reapplyAll E k rs s)"

fun install_rules :: "engine \<Rightarrow> nat \<Rightarrow> rule list \<Rightarrow> state \<Rightarrow> outcome option" where
  "install_rules E k [] st = Some (Returned st)"
| "install_rules E k (r # rs) st =
     (let st1 = st\<lparr>listeners := listeners st @ new_listeners E (elems st) r\<rparr> in
      case apply_fuel E k 0 st1 r of
        None \<Rightarrow> None
      | Some (Thrown e s) \<Rightarrow> Some (Thrown e s)
      | Some (Returned s) \<Rightarrow> install_rules E k rs s)"

text \<open>
  \<open>(options && options.containerDepth) || 3\<close>, as the number the loop of \<open>fieldWrap\<close> compares
  its counter with.
\<close>

definition resolve_containerDepth :: "form_opts option \<Rightarrow> js_number" where
  "resolve_containerDepth opts =
     (let v = (case opts of None \<Rightarrow> CUndefined | Some o' \<Rightarrow> opt_containerDepth o')
      in if truthy_cfg v then ToNumber v else Fin 3)"

definition setupConditionalFields ::
  "(string \<Rightarrow> element list \<Rightarrow> node option) \<Rightarrow> nat \<Rightarrow> rule list \<Rightarrow> form_opts option \<Rightarrow> state \<Rightarrow> outcome option" where
  "setupConditionalFields Q k rules opts st =
     install_rules \<lparr>matcher = Q, containerDepth = resolve_containerDepth opts\<rparr> k rules st"

section \<open>Notions used to state the properties\<close>










text \<open>The events \<open>evs\<close> were dispatched from \<open>st\<close> to \<open>st'\<close>, all at depth \<open>lvl\<close> or deeper.\<close>

definition log_ext :: "nat \<Rightarrow> state \<Rightarrow> state \<Rightarrow> (nat \<times> node \<times> string) list \<Rightarrow> bool" where
  "log_ext lvl st st' evs \<longleftrightarrow>
     dispatched st' = dispatched st @ evs \<and> list_all (\<lambda>ev. lvl \<le> fst ev) evs"



text \<open>The events dispatched after those of \<open>st\<close>.\<close>

definition new_events :: "state \<Rightarrow> state \<Rightarrow> (nat \<times> node \<times> string) list" where
  "new_events st st' = drop (length (dispatched st)) (dispatched st')"

text \<open>Whether an evaluation returned, and the state it returned (\<open>d\<close> when it did not).\<close>

definition returns :: "outcome option \<Rightarrow> bool" where
  "returns x = (case x of Some (Returned s) \<Rightarrow> True | _ \<Rightarrow> False)"

definition result_or :: "state \<Rightarrow> outcome option \<Rightarrow> state" where
  "result_or d x = (case x of Some (Returned s) \<Rightarrow> s | _ \<Rightarrow> d)"

definition dispatched_in :: "state option \<Rightarrow> (nat \<times> node \<times> string) list option" where
  "dispatched_in x = map_option dispatched x"



section \<open>Concrete pages and documents\<close>

text \<open>
  The scenario of a limit of 3 with the filter \<open>contact\<close>: two of five rows are tagged
  \<open>contact\<close>, so the control is shown; with a third \<open>contact\<close> row it is hidden.
\<close>

definition contact_opts :: "grid_opts option" where
  "contact_opts = Some \<lparr>maxRows = CNum (Fin 3), entityName = Some ''contact'',
     gridSelector = None, addButtonSelector = None\<rparr>"

definition contact_grid :: "nat \<Rightarrow> grid" where
  "contact_grid k =
     \<lparr>view_table = Some (replicate k \<lparr>data_entity = Some ''contact''\<rparr> @
                         replicate 3 \<lparr>data_entity = Some ''account''\<rparr>),
      select_buttons = (\<lambda>sel. if sel = ''.view-toolbar .create-action'' then [0] else [])\<rparr>"

definition fresh_button :: button where
  "fresh_button = \<lparr>classList = [''create-action''], style_display = None, style_visibility = None,
     attr_hidden = None, aria_hidden = None, aria_disabled = None, tabIndex = 0\<rparr>"

text \<open>
  A form: a text field \<open>a\<close>, a text field \<open>b\<close> three wrappers deep, a checked checkbox,
  two radios of one group, a multiple and a single \<open>select\<close>, and a range input without
  bounds, set to 70.
\<close>

definition form_doc :: "element list" where
  "form_doc =
    [\<lparr>tagName = ''DIV'', type_prop = None, name_attr = None, checked = False, multiple = False,
       value_prop = None, value_after_empty = [], options = [], parent = None, display = []\<rparr>,
     \<lparr>tagName = ''INPUT'', type_prop = Some ''text'', name_attr = Some ''a'', checked = False,
       multiple = False, value_prop = Some ''1'', value_after_empty = [], options = [], parent = Some 0, display = []\<rparr>,
     \<lparr>tagName = ''DIV'', type_prop = None, name_attr = None, checked = False, multiple = False,
       value_prop = None, value_after_empty = [], options = [], parent = Some 0, display = []\<rparr>,
     \<lparr>tagName = ''DIV'', type_prop = None, name_attr = None, checked = False, multiple = False,
       value_prop = None, value_after_empty = [], options = [], parent = Some 2, display = []\<rparr>,
     \<lparr>tagName = ''DIV'', type_prop = None, name_attr = None, checked = False, multiple = False,
       value_prop = None, value_after_empty = [], options = [], parent = Some 3, display = []\<rparr>,
     \<lparr>tagName = ''INPUT'', type_prop = Some ''text'', name_attr = Some ''b'', checked = False,
       multiple = False, value_prop = Some '' -7 '', value_after_empty = [], options = [], parent = Some 4, display = []\<rparr>,
     \<lparr>tagName = ''INPUT'', type_prop = Some ''checkbox'', name_attr = Some ''c'', checked = True,
       multiple = False, value_prop = Some ''on'', value_after_empty = [], options = [], parent = Some 0, display = []\<rparr>,
     \<lparr>tagName = ''INPUT'', type_prop = Some ''radio'', name_attr = Some ''r'', checked = False,
       multiple = False, value_prop = Some ''10'', value_after_empty = [], options = [], parent = Some 0, display = []\<rparr>,
     \<lparr>tagName = ''INPUT'', type_prop = Some ''radio'', name_attr = Some ''r'', checked = True,
       multiple = False, value_prop = Some ''20'', value_after_empty = [], options = [], parent = Some 0, display = []\<rparr>,
     \<lparr>tagName = ''SELECT'', type_prop = Some ''select-multiple'', name_attr = Some ''m'',
       checked = False, multiple = True, value_prop = None, value_after_empty = [],
       options = [\<lparr>opt_value = ''x'', selected = True\<rparr>, \<lparr>opt_value = ''5'', selected = True\<rparr>,
                  \<lparr>opt_value = ''y'', selected = False\<rparr>],
       parent = Some 0, display = []\<rparr>,
     \<lparr>tagName = ''SELECT'', type_prop = Some ''select-one'', name_attr = Some ''s'',
       checked = False, multiple = False, value_prop = None, value_after_empty = [],
       options = [\<lparr>opt_value = [], selected = False\<rparr>, \<lparr>opt_value = ''k'', selected = True\<rparr>],
       parent = Some 0, display = []\<rparr>,
     \<lparr>tagName = ''INPUT'', type_prop = Some ''range'', name_attr = Some ''g'', checked = False,
       multiple = False, value_prop = Some ''70'', value_after_empty = ''50'', options = [],
       parent = Some 0, display = []\<rparr>]"

text \<open>
  Selector matching on the form: the id selectors \<open>#a\<close>, \<open>#b\<close>, \<open>#c\<close>, \<open>#r\<close>, \<open>#m\<close>, \<open>#s\<close>
  and the positions of the elements with these ids.
\<close>

definition id_matcher :: "string \<Rightarrow> element list \<Rightarrow> node option" where
  "id_matcher s els = map_of [(''#a'', 1), (''#b'', 5), (''#c'', 6), (''#r'', 8), (''#m'', 9), (''#s'', 10)] s"

definition form_engine :: engine where
  "form_engine = \<lparr>matcher = id_matcher, containerDepth = Fin 3\<rparr>"

definition form_state :: state where
  "form_state = \<lparr>elems = form_doc, listeners = [], dispatched = []\<rparr>"

text \<open>
  \<open>ctx => ctx.val("#a") === 1\<close>, and the same predicate written against \<open>valueOf\<close>. The
  object has no property \<open>valueOf\<close> of its own: \<open>ctx.valueOf\<close> is the method every object
  inherits, which returns the object itself, and the comparison with 1 is false.
\<close>

definition a_is_one :: predicate where
  "a_is_one c = (case map_of c ''val'' of Some (CtxVal f) \<Rightarrow> Inr (f ''#a'' = VScalar (Num 1)) | _ \<Rightarrow> Inl TypeError)"

definition a_is_one_valueOf :: predicate where
  "a_is_one_valueOf c =
     (case map_of c ''valueOf'' of
        Some (CtxVal f) \<Rightarrow> Inr (f ''#a'' = VScalar (Num 1))
      | Some _ \<Rightarrow> Inl TypeError
      | None \<Rightarrow> Inr False)"

text \<open>
  \<open>ctx => ctx.elementOf("#a") !== null\<close>: no object has a property \<open>elementOf\<close> unless it is
  given one, and calling \<open>undefined\<close> throws a TypeError.
\<close>

definition a_found_elementOf :: predicate where
  "a_found_elementOf c =
     (case map_of c ''elementOf'' of Some (CtxGet f) \<Rightarrow> Inr (f ''#a'' \<noteq> None) | _ \<Rightarrow> Inl TypeError)"

definition never :: predicate where
  "never c = Inr False"

text \<open>
  The rule \<open>{ target: "#b", deps: ["#a"], when: ctx => ctx.val("#a") === 1, clearWhenHidden: true }\<close>,
  a rule on the checkbox that always hides and clears, and the first rule with the property
  names \<open>predicate\<close> and \<open>clearOnHide\<close>.
\<close>

definition rule_b :: rule where
  "rule_b = \<lparr>target = ''#b'', deps = Some [''#a''], methods = [(''when'', a_is_one)],
     flags = [(''clearWhenHidden'', True)]\<rparr>"

definition rule_c :: rule where
  "rule_c = \<lparr>target = ''#c'', deps = None, methods = [(''when'', never)],
     flags = [(''clearWhenHidden'', True)]\<rparr>"

definition rule_b_renamed :: rule where
  "rule_b_renamed = \<lparr>target = ''#b'', deps = Some [''#a''], methods = [(''predicate'', a_is_one)],
     flags = [(''clearOnHide'', True)]\<rparr>"

text \<open>The first rule with its \<open>when\<close> written against \<open>valueOf\<close>, and against \<open>elementOf\<close>.\<close>

definition rule_b_valueOf :: rule where
  "rule_b_valueOf = \<lparr>target = ''#b'', deps = Some [''#a''], methods = [(''when'', a_is_one_valueOf)],
     flags = [(''clearWhenHidden'', True)]\<rparr>"

definition rule_b_elementOf :: rule where
  "rule_b_elementOf = \<lparr>target = ''#b'', deps = Some [''#a''], methods = [(''when'', a_found_elementOf)],
     flags = [(''clearWhenHidden'', True)]\<rparr>"

text \<open>The field \<open>a\<close> written by a script, with no event fired.\<close>

definition write_a :: "string \<Rightarrow> state \<Rightarrow> state" where
  "write_a v st = st\<lparr>elems := (elems st)[1 := (elems st ! 1)\<lparr>value_prop := Some v\<rparr>]\<rparr>"

text \<open>A rule whose target and dependency match nothing, and whose predicate throws.\<close>

definition throwing :: predicate where
  "throwing c = Inl (Error ''boom'')"

definition rule_missing :: rule where
  "rule_missing = \<lparr>target = ''#nowhere'', deps = Some [''#nothing''], methods = [(''when'', throwing)],
     flags = [(''clearWhenHidden'', True)]\<rparr>"

text \<open>
  The form after \<open>setupConditionalFields\<close> with the two rules, and with the first rule alone;
  then the field \<open>a\<close> set to \<open>"2"\<close> by a script.
\<close>

definition installed_two :: state where
  "installed_two = result_or form_state (setupConditionalFields id_matcher 1 [rule_b, rule_c] None form_state)"

definition installed_one :: state where
  "installed_one = result_or form_state (setupConditionalFields id_matcher 1 [rule_b] None form_state)"

definition written_two :: state where
  "written_two = write_a ''2'' installed_two"

definition written_one :: state where
  "written_one = write_a ''2'' installed_one"







text \<open>Options with \<open>maxRows\<close> \<open>true\<close>, -1 and 3, and with \<open>containerDepth\<close> -1 and 0.\<close>

definition rows_opts :: "js_cfg \<Rightarrow> grid_opts option" where
  "rows_opts v = Some \<lparr>maxRows = v, entityName = None, gridSelector = None, addButtonSelector = None\<rparr>"

definition depth_opts :: "js_cfg \<Rightarrow> form_opts option" where
  "depth_opts v = Some \<lparr>opt_containerDepth = v, opt_log = None\<rparr>"

text \<open>A grid with \<open>k\<close> rows and one Add control.\<close>

definition plain_grid :: "nat \<Rightarrow> grid" where
  "plain_grid k =
     \<lparr>view_table = Some (replicate k \<lparr>data_entity = None\<rparr>),
      select_buttons = (\<lambda>sel. if sel = ''.view-toolbar .create-action'' then [0] else [])\<rparr>"

section \<open>Properties of the subgrid controller\<close>

subsection \<open>Row counting and the Add controls\<close>

lemma length_forEach_button: "length (forEach_button f is bs) = length bs"
  by (induction "is" arbitrary: bs) simp_all

lemma nth_forEach_button:
  assumes idem: "\<And>x. f (f x) = f x" and j: "j < length bs"
  shows "forEach_button f is bs ! j = (if j \<in> set is then f (bs ! j) else bs ! j)"
  using j
proof (induction "is" arbitrary: bs)
  case Nil
  then show ?case by simp
next
  case (Cons i "is")
  have len: "j < length (bs[i := f (bs ! i)])" using Cons.prems by simp
  show ?case
    using Cons.IH [OF len] Cons.prems
    by (cases "j = i") (simp_all add: idem)
qed

lemma forEach_button_idem:
  assumes idem: "\<And>x. f (f x) = f x"
  shows "forEach_button f is (forEach_button f is bs) = forEach_button f is bs"
proof (rule nth_equalityI)
  show "length (forEach_button f is (forEach_button f is bs)) = length (forEach_button f is bs)"
    by (simp add: length_forEach_button)
next
  fix j assume "j < length (forEach_button f is (forEach_button f is bs))"
  then have j: "j < length bs" by (simp add: length_forEach_button)
  then have j': "j < length (forEach_button f is bs)" by (simp add: length_forEach_button)
  show "forEach_button f is (forEach_button f is bs) ! j = forEach_button f is bs ! j"
    by (simp add: nth_forEach_button [OF idem j'] nth_forEach_button [OF idem j] idem)
qed

lemma showAdd_idem: "showAdd (showAdd b) = showAdd b"
  by (simp add: showAdd_def)

lemma hideAdd_idem: "hideAdd (hideAdd b) = hideAdd b"
  by (simp add: hideAdd_def)

lemma shown_showAdd: "shown_state (showAdd b)"
  by (simp add: shown_state_def showAdd_def)

lemma hidden_hideAdd: "hidden_state (hideAdd b)"
  by (simp add: hidden_state_def hideAdd_def)

lemma MAX_ROWS_cases: "MAX_ROWS opts = PosInf \<or> MAX_ROWS opts = NegInf \<or> (\<exists>q. q \<noteq> 0 \<and> MAX_ROWS opts = Fin q)"
  by (cases "ToNumber (case opts of None \<Rightarrow> CUndefined | Some o' \<Rightarrow> maxRows o')")
     (simp_all add: MAX_ROWS_def num_or_def)

lemma not_less_MAX_ROWS: "(\<not> nat_less_num i (MAX_ROWS opts)) = num_le_nat (MAX_ROWS opts) i"
  using MAX_ROWS_cases [of opts] by auto

text \<open>
  C1. With a filter value \<open>F\<close> configured (a non-empty string) and at least one row of the
  table body carrying \<open>data-entity = F\<close>, \<open>countRows\<close> returns the number of those rows;
  with no filter configured, or no row matching it, it returns the number of all rows of the
  grid's table body.
\<close>

theorem countRows_filtered_or_all:
  "countRows g F =
     (if F \<noteq> [] \<and> 0 < length (rows_with_entity g F) then length (rows_with_entity g F)
      else length (tbody_rows g))"
  by (simp add: countRows_def rows_with_entity_def tbody_rows_def Let_def split: option.splits)

text \<open>
  C2. When the row count of a grid is below the maximum, \<open>toggleInGrid\<close> leaves every matched
  Add control shown (no \<open>hidden\<close> attribute, \<open>aria-hidden\<close> and \<open>aria-disabled\<close> \<open>"false"\<close>,
  \<open>tabIndex\<close> 0); when the maximum is at most the row count, it leaves every matched control
  hidden (\<open>hidden\<close> set, both ARIA attributes \<open>"true"\<close>, \<open>tabIndex\<close> -1); and toggling again,
  the rows unchanged, changes nothing.
\<close>

theorem toggleInGrid_shows_or_hides:
  "(nat_less_num (countRows g (ENTITY_NAME opts)) (MAX_ROWS opts) \<longrightarrow>
      (\<forall>i \<in> set (select_buttons g (ADD_BUTTON_SELECTOR opts)).
         i < length bs \<longrightarrow> shown_state (toggleInGrid opts g bs ! i))) \<and>
   (num_le_nat (MAX_ROWS opts) (countRows g (ENTITY_NAME opts)) \<longrightarrow>
      (\<forall>i \<in> set (select_buttons g (ADD_BUTTON_SELECTOR opts)).
         i < length bs \<longrightarrow> hidden_state (toggleInGrid opts g bs ! i))) \<and>
   (nat_less_num (countRows g (ENTITY_NAME opts)) (MAX_ROWS opts) \<or>
    num_le_nat (MAX_ROWS opts) (countRows g (ENTITY_NAME opts))) \<and>
   toggleInGrid opts g (toggleInGrid opts g bs) = toggleInGrid opts g bs"
proof -
  have shown: "\<And>i. i < length bs \<Longrightarrow> i \<in> set (select_buttons g (ADD_BUTTON_SELECTOR opts)) \<Longrightarrow>
      shown_state (forEach_button showAdd (select_buttons g (ADD_BUTTON_SELECTOR opts)) bs ! i)"
    by (simp add: nth_forEach_button [of showAdd] showAdd_idem shown_showAdd)
  have hidden: "\<And>i. i < length bs \<Longrightarrow> i \<in> set (select_buttons g (ADD_BUTTON_SELECTOR opts)) \<Longrightarrow>
      hidden_state (forEach_button hideAdd (select_buttons g (ADD_BUTTON_SELECTOR opts)) bs ! i)"
    by (simp add: nth_forEach_button [of hideAdd] hideAdd_idem hidden_hideAdd)
  have idem_show: "\<And>is. forEach_button showAdd is (forEach_button showAdd is bs) = forEach_button showAdd is bs"
    by (rule forEach_button_idem) (rule showAdd_idem)
  have idem_hide: "\<And>is. forEach_button hideAdd is (forEach_button hideAdd is bs) = forEach_button hideAdd is bs"
    by (rule forEach_button_idem) (rule hideAdd_idem)
  show ?thesis
    using shown hidden
    by (simp add: toggleInGrid_def Let_def idem_show idem_hide not_less_MAX_ROWS [symmetric])
qed

lemma contact_consts:
  "ENTITY_NAME contact_opts = ''contact''" "MAX_ROWS contact_opts = Fin 3"
  "ADD_BUTTON_SELECTOR contact_opts = ''.view-toolbar .create-action''"
  by (simp_all add: contact_opts_def ENTITY_NAME_def MAX_ROWS_def ADD_BUTTON_SELECTOR_def
        str_or_def num_or_def)

lemma contact_count: "countRows (contact_grid k) ''contact'' = (if k = 0 then 3 else k)"
  by (simp add: countRows_def contact_grid_def Let_def)

theorem toggleInGrid_shows_or_hides_witness:
  "nat_less_num (countRows (contact_grid 2) (ENTITY_NAME contact_opts)) (MAX_ROWS contact_opts) \<and>
   0 \<in> set (select_buttons (contact_grid 2) (ADD_BUTTON_SELECTOR contact_opts)) \<and>
   0 < length [fresh_button] \<and>
   shown_state (toggleInGrid contact_opts (contact_grid 2) [fresh_button] ! 0) \<and>
   num_le_nat (MAX_ROWS contact_opts) (countRows (contact_grid 3) (ENTITY_NAME contact_opts)) \<and>
   0 \<in> set (select_buttons (contact_grid 3) (ADD_BUTTON_SELECTOR contact_opts)) \<and>
   hidden_state (toggleInGrid contact_opts (contact_grid 3) [fresh_button] ! 0)"
proof -
  have a: "nat_less_num (countRows (contact_grid 2) (ENTITY_NAME contact_opts)) (MAX_ROWS contact_opts)"
    by (simp add: contact_consts contact_count)
  have b: "num_le_nat (MAX_ROWS contact_opts) (countRows (contact_grid 3) (ENTITY_NAME contact_opts))"
    by (simp add: contact_consts contact_count)
  have m: "\<And>k. 0 \<in> set (select_buttons (contact_grid k) (ADD_BUTTON_SELECTOR contact_opts))"
    by (simp add: contact_consts contact_grid_def)
  show ?thesis
    using a b m
      toggleInGrid_shows_or_hides [of "contact_grid 2" contact_opts "[fresh_button]"]
      toggleInGrid_shows_or_hides [of "contact_grid 3" contact_opts "[fresh_button]"]
    by simp
qed

lemma countRows_scenario:
  "countRows (contact_grid 2) ''contact'' = 2 \<and> length (tbody_rows (contact_grid 2)) = 5 \<and>
   countRows (contact_grid 0) ''contact'' = 3 \<and> countRows (contact_grid 2) [] = 5"
  by (simp add: contact_count tbody_rows_def) (simp add: contact_grid_def countRows_def)

section \<open>Properties of value coercion\<close>













subsection \<open>What \<open>val\<close> returns and what it throws\<close>





section \<open>Properties of the conditional-field engine\<close>

subsection \<open>Elements under the engine's writes\<close>



















subsection \<open>The writes of a clearing\<close>








subsection \<open>States under the engine's evaluations\<close>








lemma log_ext_mono: "lvl' \<le> lvl \<Longrightarrow> log_ext lvl a b evs \<Longrightarrow> log_ext lvl' a b evs"
  by (auto simp: log_ext_def list_all_iff)








subsection \<open>Missing elements\<close>

lemma map_filter_skip:
  "f d = None \<Longrightarrow> List.map_filter f (ds @ d # ds') = List.map_filter f (ds @ ds')"
  by (simp add: List.map_filter_def)

text \<open>
  C6. A rule whose target selector matches no element is skipped: the evaluation returns
  the state it was given, throws nothing, and does not depend on the rule's predicate, which
  is not called (the rule may have none, or one that throws). A dependency selector that
  matches no element adds no listener, and a rule whose dependencies all match nothing adds
  none at all; installing a rule with neither target nor dependencies in the document leaves
  the state as it was.
\<close>

theorem missing_elements_skipped:
  "(querySelector E (elems st) (target r) = None \<longrightarrow>
      apply_step E rec lvl st r = Some (Returned st) \<and>
      apply_fuel E (Suc k) lvl st r = Some (Returned st) \<and>
      apply_fuel E (Suc k) lvl st (r\<lparr>methods := ms\<rparr>) = Some (Returned st)) \<and>
   (querySelector E els d = None \<longrightarrow>
      depEls E els (r\<lparr>deps := Some (ds @ d # ds')\<rparr>) = depEls E els (r\<lparr>deps := Some (ds @ ds')\<rparr>)) \<and>
   ((\<forall>d' \<in> set (case deps r of None \<Rightarrow> [] | Some xs \<Rightarrow> xs). querySelector E els d' = None) \<longrightarrow>
      new_listeners E els r = []) \<and>
   (querySelector E (elems st) (target r) = None \<and>
    (\<forall>d' \<in> set (case deps r of None \<Rightarrow> [] | Some xs \<Rightarrow> xs). querySelector E (elems st) d' = None) \<longrightarrow>
      install_rules E (Suc k) [r] st = Some (Returned st))"
proof -
  have a: "querySelector E (elems st) (target r) = None \<longrightarrow>
      apply_step E rec lvl st r = Some (Returned st) \<and>
      apply_fuel E (Suc k) lvl st r = Some (Returned st) \<and>
      apply_fuel E (Suc k) lvl st (r\<lparr>methods := ms\<rparr>) = Some (Returned st)"
    by (simp add: apply_step_def)
  have b: "querySelector E els d = None \<longrightarrow>
      depEls E els (r\<lparr>deps := Some (ds @ d # ds')\<rparr>) = depEls E els (r\<lparr>deps := Some (ds @ ds')\<rparr>)"
    by (simp add: depEls_def map_filter_skip)
  have c: "new_listeners E els' r = []"
    if "\<forall>d' \<in> set (case deps r of None \<Rightarrow> [] | Some xs \<Rightarrow> xs). querySelector E els' d' = None" for els'
  proof -
    from that have "depEls E els' r = []"
      by (simp add: depEls_def List.map_filter_def filter_empty_conv)
    then show ?thesis by (simp add: new_listeners_def)
  qed
  have d: "install_rules E (Suc k) [r] st = Some (Returned st)"
    if "querySelector E (elems st) (target r) = None"
      "\<forall>d' \<in> set (case deps r of None \<Rightarrow> [] | Some xs \<Rightarrow> xs). querySelector E (elems st) d' = None"
    using that c [of "elems st"] by (simp add: apply_step_def)
  from a b c [of els] d show ?thesis by blast
qed

theorem missing_elements_skipped_witness:
  "querySelector form_engine (elems form_state) (target rule_missing) = None \<and>
   apply_fuel form_engine (Suc 0) 0 form_state rule_missing = Some (Returned form_state) \<and>
   querySelector form_engine form_doc ''#nothing'' = None \<and>
   depEls form_engine form_doc (rule_missing\<lparr>deps := Some ([''#a''] @ ''#nothing'' # [])\<rparr>) =
     depEls form_engine form_doc (rule_missing\<lparr>deps := Some ([''#a''] @ [])\<rparr>) \<and>
   new_listeners form_engine form_doc rule_missing = [] \<and>
   install_rules form_engine (Suc 0) [rule_missing] form_state = Some (Returned form_state)"
proof -
  have t: "querySelector form_engine (elems form_state) (target rule_missing) = None"
    by (simp add: querySelector_def form_engine_def id_matcher_def rule_missing_def)
  have n: "querySelector form_engine form_doc ''#nothing'' = None"
    by (simp add: querySelector_def form_engine_def id_matcher_def)
  have ds: "\<forall>d' \<in> set (case deps rule_missing of None \<Rightarrow> [] | Some xs \<Rightarrow> xs).
              querySelector form_engine form_doc d' = None"
    using n by (simp add: rule_missing_def)
  have els: "elems form_state = form_doc" by (simp add: form_state_def)
  show ?thesis
    using t n ds els
      missing_elements_skipped [of form_engine form_state rule_missing "\<lambda>s r. None" 0 0
        "[]" form_doc "''#nothing''" "[''#a'']" "[]"]
    by simp
qed

subsection \<open>The form under the engine\<close>

lemma returns_result: "returns x \<Longrightarrow> x = Some (Returned (result_or d x))"
  by (auto simp: returns_def result_or_def split: option.splits outcome.splits)

lemma rule_b_fields:
  "target rule_b = ''#b''" "deps rule_b = Some [''#a'']" "methods rule_b = [(''when'', a_is_one)]"
  "flags rule_b = [(''clearWhenHidden'', True)]"
  by (simp_all add: rule_b_def)

lemma form_queries:
  "querySelector form_engine form_doc ''#a'' = Some 1"
  "querySelector form_engine form_doc ''#b'' = Some 5"
  "querySelector form_engine form_doc ''#c'' = Some 6"
  by (simp_all add: querySelector_def form_engine_def id_matcher_def form_doc_def)

lemma a_is_one_form: "a_is_one (make_ctx form_engine form_doc 5) = Inr True"
  by code_simp

lemma wrap_b: "fieldWrap (containerDepth form_engine) form_doc 5 0 = 2"
  by code_simp

lemma installed_one_eq:
  "installed_one = \<lparr>elems = form_doc[2 := set_display [] (form_doc ! 2)],
     listeners = [\<lparr>on_node = 1, on_event = ''input'', on_rule = rule_b\<rparr>,
                  \<lparr>on_node = 1, on_event = ''change'', on_rule = rule_b\<rparr>],
     dispatched = []\<rparr>"
proof -
  have e: "\<lparr>matcher = id_matcher, containerDepth = resolve_containerDepth None\<rparr> = form_engine"
    by (simp add: form_engine_def resolve_containerDepth_def)
  have n: "new_listeners form_engine form_doc rule_b =
      [\<lparr>on_node = 1, on_event = ''input'', on_rule = rule_b\<rparr>,
       \<lparr>on_node = 1, on_event = ''change'', on_rule = rule_b\<rparr>]"
    by (simp add: new_listeners_def depEls_def rule_b_fields List.map_filter_def form_queries)
  show ?thesis
    by (simp add: installed_one_def setupConditionalFields_def e form_state_def n
          apply_step_def rule_b_fields form_queries a_is_one_form wrap_b result_or_def)
qed

lemma written_one_listeners:
  "listeners_for written_one 1 ''change'' = [\<lparr>on_node = 1, on_event = ''change'', on_rule = rule_b\<rparr>]"
proof -
  have p: "event_path (elems written_one) (Suc 0) = [Suc 0, 0]"
    by code_simp
  show ?thesis
    by (simp add: listeners_for_def p) (simp add: written_one_def write_a_def installed_one_eq)
qed

subsection \<open>Configuration defaults\<close>

lemma toggleInGrid_cong:
  assumes "MAX_ROWS a = MAX_ROWS b" "ENTITY_NAME a = ENTITY_NAME b"
    "ADD_BUTTON_SELECTOR a = ADD_BUTTON_SELECTOR b"
  shows "toggleInGrid a g bs = toggleInGrid b g bs"
  using assms by (simp add: toggleInGrid_def)

lemma forEach_grid_cong:
  assumes "MAX_ROWS a = MAX_ROWS b" "ENTITY_NAME a = ENTITY_NAME b"
    "ADD_BUTTON_SELECTOR a = ADD_BUTTON_SELECTOR b"
  shows "forEach_grid a gs bs = forEach_grid b gs bs"
  by (induction gs arbitrary: bs) (simp_all add: toggleInGrid_cong [OF assms])

lemma toggleAll_maxRows:
  assumes "MAX_ROWS (Some (opts\<lparr>maxRows := x\<rparr>)) = MAX_ROWS (Some (opts\<lparr>maxRows := y\<rparr>))"
  shows "toggleAll (Some (opts\<lparr>maxRows := x\<rparr>)) p = toggleAll (Some (opts\<lparr>maxRows := y\<rparr>)) p"
proof -
  have e: "ENTITY_NAME (Some (opts\<lparr>maxRows := x\<rparr>)) = ENTITY_NAME (Some (opts\<lparr>maxRows := y\<rparr>))"
    by (simp add: ENTITY_NAME_def)
  have b: "ADD_BUTTON_SELECTOR (Some (opts\<lparr>maxRows := x\<rparr>)) = ADD_BUTTON_SELECTOR (Some (opts\<lparr>maxRows := y\<rparr>))"
    by (simp add: ADD_BUTTON_SELECTOR_def)
  have g: "GRID_SELECTOR (Some (opts\<lparr>maxRows := x\<rparr>)) = GRID_SELECTOR (Some (opts\<lparr>maxRows := y\<rparr>))"
    by (simp add: GRID_SELECTOR_def)
  show ?thesis
    by (simp add: toggleAll_def g forEach_grid_cong [OF assms e b])
qed

lemma MAX_ROWS_value:
  "MAX_ROWS (Some (opts\<lparr>maxRows := v\<rparr>)) = (if truthy_num (ToNumber v) then ToNumber v else Fin 3)"
  by (simp add: MAX_ROWS_def num_or_def)

lemma resolve_containerDepth_value:
  "resolve_containerDepth (Some (fo\<lparr>opt_containerDepth := v\<rparr>)) =
     (if truthy_cfg v then ToNumber v else Fin 3)"
  by (simp add: resolve_containerDepth_def)

lemma resolve_containerDepth_not_zero:
  "resolve_containerDepth (Some (fo\<lparr>opt_containerDepth := CNum x\<rparr>)) \<noteq> Fin 0 \<and>
   resolve_containerDepth (Some (fo\<lparr>opt_containerDepth := CBool b\<rparr>)) \<noteq> Fin 0 \<and>
   resolve_containerDepth (Some (fo\<lparr>opt_containerDepth := CNull\<rparr>)) \<noteq> Fin 0 \<and>
   resolve_containerDepth (Some (fo\<lparr>opt_containerDepth := CUndefined\<rparr>)) \<noteq> Fin 0 \<and>
   resolve_containerDepth None \<noteq> Fin 0"
  by (cases x) (simp_all add: resolve_containerDepth_def)

lemma fieldWrap_no_hop: "\<not> nat_less_num 0 d \<Longrightarrow> fieldWrap d els c 0 = c"
  by (simp add: fieldWrap.simps [of d els c 0])

lemma falsy_maxRows_same:
  assumes "\<not> truthy_num (ToNumber v)" "\<not> truthy_num (ToNumber w)"
  shows "toggleAll (Some (opts\<lparr>maxRows := v\<rparr>)) q = toggleAll (Some (opts\<lparr>maxRows := w\<rparr>)) q"
  by (rule toggleAll_maxRows) (simp add: MAX_ROWS_value assms)

lemma falsy_maxRows_three:
  assumes "\<not> truthy_num (ToNumber v)"
  shows "toggleAll (Some (opts\<lparr>maxRows := v\<rparr>)) q = toggleAll (Some (opts\<lparr>maxRows := CNum (Fin 3)\<rparr>)) q"
  by (rule toggleAll_maxRows) (simp add: MAX_ROWS_value assms)

text \<open>
  C9, as the code has it. A \<open>maxRows\<close> that \<open>Number\<close> converts to 0 or NaN (0, NaN, \<open>null\<close>,
  \<open>false\<close>, \<open>undefined\<close>, a string that is not a numeral) is the same as an omitted one and
  as 3, for \<open>limitSubgridAdds\<close> and for its observer callback; a falsy \<open>containerDepth\<close> (0,
  NaN, \<open>null\<close>, \<open>false\<close>, \<open>undefined\<close>, the empty string) is the same as an omitted one and
  as 3 for \<open>setupConditionalFields\<close>. So the maximum in use is never 0, and neither is the
  depth in use when the option is omitted, \<open>undefined\<close>, \<open>null\<close>, a boolean or a number. Any
  other value is used as converted: \<open>true\<close> counts as 1, and a negative number stays: a
  negative \<open>maxRows\<close> hides every matched control at every row count, and with a negative
  \<open>containerDepth\<close> the container is the target itself.
\<close>

theorem falsy_options_default:
  "(\<not> truthy_num (ToNumber v) \<longrightarrow>
      MAX_ROWS (Some (opts\<lparr>maxRows := v\<rparr>)) = Fin 3 \<and>
      limitSubgridAdds (Some (opts\<lparr>maxRows := v\<rparr>)) p =
        limitSubgridAdds (Some (opts\<lparr>maxRows := CUndefined\<rparr>)) p \<and>
      limitSubgridAdds (Some (opts\<lparr>maxRows := v\<rparr>)) p =
        limitSubgridAdds (Some (opts\<lparr>maxRows := CNum (Fin 3)\<rparr>)) p \<and>
      on_mutation (Some (opts\<lparr>maxRows := v\<rparr>)) p =
        on_mutation (Some (opts\<lparr>maxRows := CUndefined\<rparr>)) p \<and>
      on_mutation (Some (opts\<lparr>maxRows := v\<rparr>)) p =
        on_mutation (Some (opts\<lparr>maxRows := CNum (Fin 3)\<rparr>)) p) \<and>
   (truthy_num (ToNumber v) \<longrightarrow> MAX_ROWS (Some (opts\<lparr>maxRows := v\<rparr>)) = ToNumber v) \<and>
   \<not> truthy_num (ToNumber (CNum (Fin 0))) \<and> \<not> truthy_num (ToNumber (CNum NaN)) \<and>
   \<not> truthy_num (ToNumber CNull) \<and> \<not> truthy_num (ToNumber (CBool False)) \<and>
   \<not> truthy_num (ToNumber CUndefined) \<and> ToNumber (CBool True) = Fin 1 \<and>
   MAX_ROWS gopts \<noteq> Fin 0 \<and>
   (\<not> truthy_cfg d \<longrightarrow>
      resolve_containerDepth (Some (fo\<lparr>opt_containerDepth := d\<rparr>)) = Fin 3 \<and>
      setupConditionalFields Q k rules (Some (fo\<lparr>opt_containerDepth := d\<rparr>)) st =
        setupConditionalFields Q k rules None st \<and>
      setupConditionalFields Q k rules (Some (fo\<lparr>opt_containerDepth := d\<rparr>)) st =
        setupConditionalFields Q k rules (Some (fo\<lparr>opt_containerDepth := CNum (Fin 3)\<rparr>)) st) \<and>
   (truthy_cfg d \<longrightarrow> resolve_containerDepth (Some (fo\<lparr>opt_containerDepth := d\<rparr>)) = ToNumber d) \<and>
   \<not> truthy_cfg (CNum (Fin 0)) \<and> \<not> truthy_cfg (CNum NaN) \<and> \<not> truthy_cfg CNull \<and>
   \<not> truthy_cfg (CBool False) \<and> \<not> truthy_cfg CUndefined \<and>
   resolve_containerDepth (Some (fo\<lparr>opt_containerDepth := CNum x\<rparr>)) \<noteq> Fin 0 \<and>
   resolve_containerDepth (Some (fo\<lparr>opt_containerDepth := CBool b\<rparr>)) \<noteq> Fin 0 \<and>
   resolve_containerDepth (Some (fo\<lparr>opt_containerDepth := CNull\<rparr>)) \<noteq> Fin 0 \<and>
   resolve_containerDepth (Some (fo\<lparr>opt_containerDepth := CUndefined\<rparr>)) \<noteq> Fin 0 \<and>
   resolve_containerDepth None \<noteq> Fin 0 \<and>
   (q < 0 \<longrightarrow>
      MAX_ROWS (Some (opts\<lparr>maxRows := CNum (Fin q)\<rparr>)) = Fin q \<and>
      toggleInGrid (Some (opts\<lparr>maxRows := CNum (Fin q)\<rparr>)) g bs =
        forEach_button hideAdd
          (select_buttons g (ADD_BUTTON_SELECTOR (Some (opts\<lparr>maxRows := CNum (Fin q)\<rparr>)))) bs \<and>
      resolve_containerDepth (Some (fo\<lparr>opt_containerDepth := CNum (Fin q)\<rparr>)) = Fin q \<and>
      fieldWrap (resolve_containerDepth (Some (fo\<lparr>opt_containerDepth := CNum (Fin q)\<rparr>))) els c 0 = c)"
proof -
  have rows: "\<not> truthy_num (ToNumber v) \<longrightarrow>
      MAX_ROWS (Some (opts\<lparr>maxRows := v\<rparr>)) = Fin 3 \<and>
      limitSubgridAdds (Some (opts\<lparr>maxRows := v\<rparr>)) p =
        limitSubgridAdds (Some (opts\<lparr>maxRows := CUndefined\<rparr>)) p \<and>
      limitSubgridAdds (Some (opts\<lparr>maxRows := v\<rparr>)) p =
        limitSubgridAdds (Some (opts\<lparr>maxRows := CNum (Fin 3)\<rparr>)) p \<and>
      on_mutation (Some (opts\<lparr>maxRows := v\<rparr>)) p =
        on_mutation (Some (opts\<lparr>maxRows := CUndefined\<rparr>)) p \<and>
      on_mutation (Some (opts\<lparr>maxRows := v\<rparr>)) p =
        on_mutation (Some (opts\<lparr>maxRows := CNum (Fin 3)\<rparr>)) p"
  proof
    assume f: "\<not> truthy_num (ToNumber v)"
    have u: "\<not> truthy_num (ToNumber CUndefined)" by simp
    show "MAX_ROWS (Some (opts\<lparr>maxRows := v\<rparr>)) = Fin 3 \<and>
      limitSubgridAdds (Some (opts\<lparr>maxRows := v\<rparr>)) p =
        limitSubgridAdds (Some (opts\<lparr>maxRows := CUndefined\<rparr>)) p \<and>
      limitSubgridAdds (Some (opts\<lparr>maxRows := v\<rparr>)) p =
        limitSubgridAdds (Some (opts\<lparr>maxRows := CNum (Fin 3)\<rparr>)) p \<and>
      on_mutation (Some (opts\<lparr>maxRows := v\<rparr>)) p =
        on_mutation (Some (opts\<lparr>maxRows := CUndefined\<rparr>)) p \<and>
      on_mutation (Some (opts\<lparr>maxRows := v\<rparr>)) p =
        on_mutation (Some (opts\<lparr>maxRows := CNum (Fin 3)\<rparr>)) p"
      using f falsy_maxRows_same [OF f u] falsy_maxRows_three [OF f]
      by (simp add: MAX_ROWS_value limitSubgridAdds_def on_mutation_def)
  qed
  have rows_used: "truthy_num (ToNumber v) \<longrightarrow> MAX_ROWS (Some (opts\<lparr>maxRows := v\<rparr>)) = ToNumber v"
    by (simp add: MAX_ROWS_value)
  have m: "MAX_ROWS gopts \<noteq> Fin 0"
    using MAX_ROWS_cases [of gopts] by auto
  have depth: "\<not> truthy_cfg d \<longrightarrow>
      resolve_containerDepth (Some (fo\<lparr>opt_containerDepth := d\<rparr>)) = Fin 3 \<and>
      setupConditionalFields Q k rules (Some (fo\<lparr>opt_containerDepth := d\<rparr>)) st =
        setupConditionalFields Q k rules None st \<and>
      setupConditionalFields Q k rules (Some (fo\<lparr>opt_containerDepth := d\<rparr>)) st =
        setupConditionalFields Q k rules (Some (fo\<lparr>opt_containerDepth := CNum (Fin 3)\<rparr>)) st"
    by (simp add: resolve_containerDepth_value setupConditionalFields_def)
       (simp add: resolve_containerDepth_def)
  have depth_used: "truthy_cfg d \<longrightarrow>
      resolve_containerDepth (Some (fo\<lparr>opt_containerDepth := d\<rparr>)) = ToNumber d"
    by (simp add: resolve_containerDepth_value)
  have neg: "q < 0 \<longrightarrow>
      MAX_ROWS (Some (opts\<lparr>maxRows := CNum (Fin q)\<rparr>)) = Fin q \<and>
      toggleInGrid (Some (opts\<lparr>maxRows := CNum (Fin q)\<rparr>)) g bs =
        forEach_button hideAdd
          (select_buttons g (ADD_BUTTON_SELECTOR (Some (opts\<lparr>maxRows := CNum (Fin q)\<rparr>)))) bs \<and>
      resolve_containerDepth (Some (fo\<lparr>opt_containerDepth := CNum (Fin q)\<rparr>)) = Fin q \<and>
      fieldWrap (resolve_containerDepth (Some (fo\<lparr>opt_containerDepth := CNum (Fin q)\<rparr>))) els c 0 = c"
  proof
    assume q: "q < 0"
    then have mr: "MAX_ROWS (Some (opts\<lparr>maxRows := CNum (Fin q)\<rparr>)) = Fin q"
      by (simp add: MAX_ROWS_value)
    have never: "\<not> nat_less_num i (Fin q)" for i
    proof -
      have "(0::rat) \<le> of_nat i" by simp
      with q show ?thesis by simp
    qed
    have tg: "toggleInGrid (Some (opts\<lparr>maxRows := CNum (Fin q)\<rparr>)) g bs =
        forEach_button hideAdd
          (select_buttons g (ADD_BUTTON_SELECTOR (Some (opts\<lparr>maxRows := CNum (Fin q)\<rparr>)))) bs"
      using never by (simp add: toggleInGrid_def mr Let_def)
    from q have rd: "resolve_containerDepth (Some (fo\<lparr>opt_containerDepth := CNum (Fin q)\<rparr>)) = Fin q"
      by (simp add: resolve_containerDepth_value)
    have fw: "fieldWrap (resolve_containerDepth (Some (fo\<lparr>opt_containerDepth := CNum (Fin q)\<rparr>))) els c 0 = c"
      using never [of 0] by (simp add: rd fieldWrap_no_hop)
    from mr tg rd fw show "MAX_ROWS (Some (opts\<lparr>maxRows := CNum (Fin q)\<rparr>)) = Fin q \<and>
      toggleInGrid (Some (opts\<lparr>maxRows := CNum (Fin q)\<rparr>)) g bs =
        forEach_button hideAdd
          (select_buttons g (ADD_BUTTON_SELECTOR (Some (opts\<lparr>maxRows := CNum (Fin q)\<rparr>)))) bs \<and>
      resolve_containerDepth (Some (fo\<lparr>opt_containerDepth := CNum (Fin q)\<rparr>)) = Fin q \<and>
      fieldWrap (resolve_containerDepth (Some (fo\<lparr>opt_containerDepth := CNum (Fin q)\<rparr>))) els c 0 = c"
      by blast
  qed
  have five: "\<not> truthy_num (ToNumber (CNum (Fin 0))) \<and> \<not> truthy_num (ToNumber (CNum NaN)) \<and>
   \<not> truthy_num (ToNumber CNull) \<and> \<not> truthy_num (ToNumber (CBool False)) \<and>
   \<not> truthy_num (ToNumber CUndefined) \<and> ToNumber (CBool True) = Fin 1 \<and>
   \<not> truthy_cfg (CNum (Fin 0)) \<and> \<not> truthy_cfg (CNum NaN) \<and> \<not> truthy_cfg CNull \<and>
   \<not> truthy_cfg (CBool False) \<and> \<not> truthy_cfg CUndefined"
    by simp
  from rows rows_used m depth depth_used neg five resolve_containerDepth_not_zero [where fo = fo and x = x and b = b]
  show ?thesis by blast
qed

theorem falsy_options_default_witness:
  "\<not> truthy_num (ToNumber CNull) \<and>
   MAX_ROWS (rows_opts CNull) = Fin 3 \<and>
   limitSubgridAdds (rows_opts CNull)
       \<lparr>style_elems = [], buttons = [fresh_button], select_grids = (\<lambda>_. [plain_grid 4])\<rparr> =
     limitSubgridAdds (rows_opts (CNum (Fin 3)))
       \<lparr>style_elems = [], buttons = [fresh_button], select_grids = (\<lambda>_. [plain_grid 4])\<rparr> \<and>
   \<not> truthy_num (ToNumber (COther True NaN)) \<and>
   MAX_ROWS (rows_opts (COther True NaN)) = Fin 3 \<and>
   limitSubgridAdds (rows_opts (COther True NaN))
       \<lparr>style_elems = [], buttons = [fresh_button], select_grids = (\<lambda>_. [plain_grid 4])\<rparr> =
     limitSubgridAdds (rows_opts CUndefined)
       \<lparr>style_elems = [], buttons = [fresh_button], select_grids = (\<lambda>_. [plain_grid 4])\<rparr> \<and>
   \<not> truthy_cfg (COther False (Fin 0)) \<and>
   resolve_containerDepth (depth_opts (COther False (Fin 0))) = Fin 3 \<and>
   truthy_num (ToNumber (CBool True)) \<and>
   MAX_ROWS (rows_opts (CBool True)) = Fin 1 \<and>
   \<not> truthy_cfg (CBool False) \<and>
   resolve_containerDepth (depth_opts (CBool False)) = Fin 3 \<and>
   setupConditionalFields id_matcher 1 [rule_b] (depth_opts (CBool False)) form_state =
     setupConditionalFields id_matcher 1 [rule_b] None form_state \<and>
   truthy_cfg (CNum (Fin 2)) \<and>
   resolve_containerDepth (depth_opts (CNum (Fin 2))) = Fin 2 \<and>
   (- 1 :: rat) < 0 \<and>
   MAX_ROWS (rows_opts (CNum (Fin (- 1)))) = Fin (- 1) \<and>
   toggleInGrid (rows_opts (CNum (Fin (- 1)))) (plain_grid 0) [fresh_button] =
     forEach_button hideAdd
       (select_buttons (plain_grid 0) (ADD_BUTTON_SELECTOR (rows_opts (CNum (Fin (- 1))))))
       [fresh_button] \<and>
   fieldWrap (resolve_containerDepth (depth_opts (CNum (Fin (- 1))))) form_doc 5 0 = 5"
  using falsy_options_default
      [where v = CNull and d = "CBool False" and q = "- 1"
         and opts = "\<lparr>maxRows = CNull, entityName = None, gridSelector = None, addButtonSelector = None\<rparr>"
         and fo = "\<lparr>opt_containerDepth = CNull, opt_log = None\<rparr>"
         and p = "\<lparr>style_elems = [], buttons = [fresh_button], select_grids = (\<lambda>_. [plain_grid 4])\<rparr>"
         and Q = id_matcher and k = 1 and rules = "[rule_b]" and st = form_state
         and g = "plain_grid 0" and bs = "[fresh_button]" and els = form_doc and c = 5]
    falsy_options_default
      [where v = "COther True NaN" and d = "COther False (Fin 0)" and q = "- 1"
         and opts = "\<lparr>maxRows = CNull, entityName = None, gridSelector = None, addButtonSelector = None\<rparr>"
         and fo = "\<lparr>opt_containerDepth = CNull, opt_log = None\<rparr>"
         and p = "\<lparr>style_elems = [], buttons = [fresh_button], select_grids = (\<lambda>_. [plain_grid 4])\<rparr>"]
    falsy_options_default
      [where v = "CBool True" and d = "CNum (Fin 2)" and q = "- 1"
         and opts = "\<lparr>maxRows = CNull, entityName = None, gridSelector = None, addButtonSelector = None\<rparr>"
         and fo = "\<lparr>opt_containerDepth = CNull, opt_log = None\<rparr>"]
  unfolding rows_opts_def depth_opts_def by force

text \<open>
  C9 as stated fails. A \<open>maxRows\<close> that is not a number is not always read as 3:
  \<open>Number(true)\<close> is 1, so a grid with two rows has its Add control hidden, where under 3 it
  is shown; and \<open>Number("5")\<close> is 5. And a caller can request zero hops: \<open>containerDepth: -1\<close>
  is kept, the loop \<open>i < containerDepth\<close> never runs, and the container of \<open>#b\<close> is \<open>#b\<close>
  itself, where the default reaches its third ancestor; so it is with the string \<open>"0"\<close>,
  which is truthy. In the same way \<open>maxRows: -1\<close> is kept and hides the control of a grid
  with no row at all.
\<close>

theorem falsy_options_default_counterexample:
  "MAX_ROWS (rows_opts (CBool True)) = Fin 1 \<and>
   MAX_ROWS (rows_opts (CNum (Fin 3))) = Fin 3 \<and>
   map (\<lambda>b. (classList b, attr_hidden b))
       (toggleInGrid (rows_opts (CBool True)) (plain_grid 2) [fresh_button]) =
     [([''create-action''], Some ''true'')] \<and>
   map (\<lambda>b. (classList b, attr_hidden b))
       (toggleInGrid (rows_opts (CNum (Fin 3))) (plain_grid 2) [fresh_button]) =
     [([''create-action'', ''pp-show-add''], None)] \<and>
   MAX_ROWS (rows_opts (CNum (Fin (- 1)))) = Fin (- 1) \<and>
   map (\<lambda>b. (classList b, attr_hidden b))
       (toggleInGrid (rows_opts (CNum (Fin (- 1)))) (plain_grid 0) [fresh_button]) =
     [([''create-action''], Some ''true'')] \<and>
   MAX_ROWS (rows_opts (COther True (Fin 5))) = Fin 5 \<and>
   resolve_containerDepth (depth_opts (CNum (Fin (- 1)))) = Fin (- 1) \<and>
   fieldWrap (resolve_containerDepth (depth_opts (CNum (Fin (- 1))))) form_doc 5 0 = 5 \<and>
   resolve_containerDepth (depth_opts (COther True (Fin 0))) = Fin 0 \<and>
   fieldWrap (resolve_containerDepth (depth_opts (COther True (Fin 0)))) form_doc 5 0 = 5 \<and>
   fieldWrap (resolve_containerDepth (depth_opts (CNum (Fin 0)))) form_doc 5 0 = 2 \<and>
   fieldWrap (resolve_containerDepth None) form_doc 5 0 = 2"
  by code_simp

subsection \<open>The names the engine reads\<close>

lemma apply_step_other_names:
  "apply_step E rec lvl st (r\<lparr>methods := (''predicate'', p) # methods r,
                                flags := (''clearOnHide'', c) # flags r\<rparr>) =
   apply_step E rec lvl st r"
  by (simp add: apply_step_def Let_def split: option.splits sum.splits)


lemma apply_step_decided:
  assumes "querySelector E (elems st) (target r) = Some t" "map_of (methods r) ''when'' = Some w"
    "w (make_ctx E (elems st) t) = Inr b"
  shows "apply_step E rec lvl st r =
     (let container = fieldWrap (containerDepth E) (elems st) t 0;
          st1 = st\<lparr>elems := (elems st)[container :=
                  set_display (if b then [] else ''none'') (elems st ! container)]\<rparr>
      in if \<not> b \<and> map_of (flags r) ''clearWhenHidden'' = Some True
         then map_option Returned (clearValue rec lvl st1 (Some t))
         else Some (Returned st1))"
  using assms by (simp add: apply_step_def)

text \<open>
  C5, as the code has it. The predicate of a rule is its property \<open>when\<close> and its clearing
  flag is its property \<open>clearWhenHidden\<close>; properties named \<open>predicate\<close> and \<open>clearOnHide\<close>
  are not read. The object passed to the predicate has exactly the properties \<open>val\<close>, \<open>get\<close>
  and \<open>targetEl\<close>: the coerced value of the element a selector matches, the element a
  selector matches, and the target. When the target is there, a rule without \<open>when\<close> throws a
  TypeError, and a rule whose \<open>when\<close> returns a truth value shows or hides the container by
  it, clearing the target when it hides and \<open>clearWhenHidden\<close> is set.
\<close>

theorem rule_and_context_names:
  "map fst (make_ctx E els t) = [''val'', ''get'', ''targetEl''] \<and>
   map_of (make_ctx E els t) ''val'' = Some (CtxVal (\<lambda>s. val els (querySelector E els s))) \<and>
   map_of (make_ctx E els t) ''get'' = Some (CtxGet (\<lambda>s. querySelector E els s)) \<and>
   map_of (make_ctx E els t) ''targetEl'' = Some (CtxEl t) \<and>
   apply_step E rec lvl st (r\<lparr>methods := (''predicate'', p) # methods r,
                                flags := (''clearOnHide'', c) # flags r\<rparr>) =
     apply_step E rec lvl st r \<and>
   (querySelector E (elems st) (target r) = Some t \<and> map_of (methods r) ''when'' = None \<longrightarrow>
      apply_step E rec lvl st r = Some (Thrown TypeError st)) \<and>
   (querySelector E (elems st) (target r) = Some t \<and> map_of (methods r) ''when'' = Some w \<and>
    w (make_ctx E (elems st) t) = Inr b \<longrightarrow>
      apply_step E rec lvl st r =
        (let container = fieldWrap (containerDepth E) (elems st) t 0;
             st1 = st\<lparr>elems := (elems st)[container :=
                     set_display (if b then [] else ''none'') (elems st ! container)]\<rparr>
         in if \<not> b \<and> map_of (flags r) ''clearWhenHidden'' = Some True
            then map_option Returned (clearValue rec lvl st1 (Some t))
            else Some (Returned st1)))"
proof -
  have names: "map fst (make_ctx E els t) = [''val'', ''get'', ''targetEl''] \<and>
     map_of (make_ctx E els t) ''val'' = Some (CtxVal (\<lambda>s. val els (querySelector E els s))) \<and>
     map_of (make_ctx E els t) ''get'' = Some (CtxGet (\<lambda>s. querySelector E els s)) \<and>
     map_of (make_ctx E els t) ''targetEl'' = Some (CtxEl t)"
    by (simp add: make_ctx_def)
  have none: "querySelector E (elems st) (target r) = Some t \<and> map_of (methods r) ''when'' = None \<longrightarrow>
      apply_step E rec lvl st r = Some (Thrown TypeError st)"
    by (simp add: apply_step_def)
  from names none
    apply_step_other_names [where E = E and rec = rec and lvl = lvl and st = st and r = r and p = p and c = c]
    apply_step_decided [where E = E and st = st and r = r and t = t and w = w and b = b and rec = rec and lvl = lvl]
  show ?thesis by blast
qed

theorem rule_and_context_names_witness:
  "querySelector form_engine (elems form_state) (target rule_b) = Some 5 \<and>
   map_of (methods rule_b) ''when'' = Some a_is_one \<and>
   a_is_one (make_ctx form_engine (elems form_state) 5) = Inr True \<and>
   apply_step form_engine (\<lambda>s r. None) 0 form_state rule_b =
     Some (Returned (form_state\<lparr>elems := form_doc[2 := set_display [] (form_doc ! 2)]\<rparr>)) \<and>
   querySelector form_engine (elems form_state) (target rule_b_renamed) = Some 5 \<and>
   map_of (methods rule_b_renamed) ''when'' = None \<and>
   apply_step form_engine (\<lambda>s r. None) 0 form_state rule_b_renamed = Some (Thrown TypeError form_state)"
proof -
  have els: "elems form_state = form_doc" by (simp add: form_state_def)
  have q: "querySelector form_engine (elems form_state) (target rule_b) = Some 5"
    by (simp add: els rule_b_fields form_queries)
  have m: "map_of (methods rule_b) ''when'' = Some a_is_one" by (simp add: rule_b_fields)
  have w: "a_is_one (make_ctx form_engine (elems form_state) 5) = Inr True"
    by (simp add: els a_is_one_form)
  have q': "querySelector form_engine (elems form_state) (target rule_b_renamed) = Some 5"
    by (simp add: els rule_b_renamed_def form_queries)
  have m': "map_of (methods rule_b_renamed) ''when'' = None" by (simp add: rule_b_renamed_def)
  show ?thesis
    using q m w q' m'
      rule_and_context_names [where E = form_engine and st = form_state and r = rule_b and t = 5
        and w = a_is_one and b = True and rec = "\<lambda>s r. None" and lvl = 0]
      rule_and_context_names [where E = form_engine and st = form_state and r = rule_b_renamed and t = 5
        and rec = "\<lambda>s r. None" and lvl = 0]
    by (simp add: els wrap_b)
qed

text \<open>
  C5 as stated fails. On the form, where \<open>a\<close> is 1, the rule written with the property names
  \<open>predicate\<close> and \<open>clearOnHide\<close> is not decided by its \<open>predicate\<close> (which would show the
  field): its evaluation throws a TypeError. The object handed to \<open>when\<close> has no property
  \<open>elementOf\<close> or \<open>targetElement\<close>, so that a \<open>when\<close> calling \<open>elementOf\<close> throws a TypeError;
  and its \<open>valueOf\<close> is the inherited one, not a value lookup, so that the rule whose \<open>when\<close>
  compares \<open>valueOf("#a")\<close> with 1 hides the container of \<open>#b\<close> and clears \<open>#b\<close>, where the
  same rule written with \<open>val\<close> shows it.
\<close>

theorem rule_and_context_names_counterexample:
  "map_of (methods rule_b_renamed) ''predicate'' = Some a_is_one \<and>
   a_is_one (make_ctx form_engine form_doc 5) = Inr True \<and>
   apply_fuel form_engine (Suc 0) 0 form_state rule_b_renamed = Some (Thrown TypeError form_state) \<and>
   map fst (make_ctx form_engine form_doc 5) \<noteq> [''valueOf'', ''elementOf'', ''targetElement''] \<and>
   map_of (make_ctx form_engine form_doc 5) ''elementOf'' = None \<and>
   map_of (make_ctx form_engine form_doc 5) ''targetElement'' = None \<and>
   apply_fuel form_engine (Suc 0) 0 form_state rule_b_elementOf = Some (Thrown TypeError form_state) \<and>
   a_is_one_valueOf (make_ctx form_engine form_doc 5) = Inr False \<and>
   (case apply_fuel form_engine (Suc 0) 0 form_state rule_b_valueOf of
      Some (Returned s) \<Rightarrow>
        map display (elems s) = map display (form_doc[2 := set_display ''none'' (form_doc ! 2)]) \<and>
        value_prop (elems s ! 5) = Some [] \<and>
        dispatched s = [(0, 5, ''change''), (0, 5, ''input'')]
    | _ \<Rightarrow> False) \<and>
   (case apply_fuel form_engine (Suc 0) 0 form_state rule_b of
      Some (Returned s) \<Rightarrow>
        map display (elems s) = map display form_doc \<and>
        value_prop (elems s ! 5) = Some '' -7 '' \<and>
        dispatched s = []
    | _ \<Rightarrow> False)"
proof -
  have els: "elems form_state = form_doc" by (simp add: form_state_def)
  have c3: "apply_fuel form_engine (Suc 0) 0 form_state rule_b_renamed = Some (Thrown TypeError form_state)"
    by (simp add: apply_step_def els rule_b_renamed_def form_queries)
  have c1: "map_of (methods rule_b_renamed) ''predicate'' = Some a_is_one"
    by (simp add: rule_b_renamed_def)
  have c4: "map fst (make_ctx form_engine form_doc 5) \<noteq> [''valueOf'', ''elementOf'', ''targetElement'']"
    by (simp add: make_ctx_def)
  have c5: "map_of (make_ctx form_engine form_doc 5) ''elementOf'' = None"
    by (simp add: make_ctx_def)
  have c6: "map_of (make_ctx form_engine form_doc 5) ''targetElement'' = None"
    by (simp add: make_ctx_def)
  have c7: "apply_fuel form_engine (Suc 0) 0 form_state rule_b_elementOf = Some (Thrown TypeError form_state)"
    by (simp add: apply_step_def els rule_b_elementOf_def form_queries a_found_elementOf_def make_ctx_def)
  have c8: "a_is_one_valueOf (make_ctx form_engine form_doc 5) = Inr False"
    by (simp add: a_is_one_valueOf_def make_ctx_def)
  have c9: "(case apply_fuel form_engine (Suc 0) 0 form_state rule_b_valueOf of
      Some (Returned s) \<Rightarrow>
        map display (elems s) = map display (form_doc[2 := set_display ''none'' (form_doc ! 2)]) \<and>
        value_prop (elems s ! 5) = Some [] \<and>
        dispatched s = [(0, 5, ''change''), (0, 5, ''input'')]
    | _ \<Rightarrow> False)"
    by code_simp
  have c10: "(case apply_fuel form_engine (Suc 0) 0 form_state rule_b of
      Some (Returned s) \<Rightarrow>
        map display (elems s) = map display form_doc \<and>
        value_prop (elems s ! 5) = Some '' -7 '' \<and>
        dispatched s = []
    | _ \<Rightarrow> False)"
    by code_simp
  from c1 a_is_one_form c3 c4 c5 c6 c7 c8 c9 c10 show ?thesis by blast
qed

subsection \<open>Re-evaluating all rules and a native event\<close>

lemma reapplyAll_run_listeners:
  "reapplyAll E k (map on_rule ls) st = Some (Returned st') \<Longrightarrow>
   run_listeners (apply_fuel E k 0) ls st = Some st'"
proof (induction ls arbitrary: st)
  case Nil
  then show ?case by simp
next
  case (Cons l ls)
  from Cons.prems obtain s where a: "apply_fuel E k 0 st (on_rule l) = Some (Returned s)"
    and r: "reapplyAll E k (map on_rule ls) s = Some (Returned st')"
    by (auto split: option.splits outcome.splits)
  from Cons.IH [OF r] a show ?case by simp
qed

text \<open>
  C7, as the code has it. \<open>reapplyAll\<close> evaluates every rule of the rule set, in order; a
  native change event on a dependency evaluates the rules that listen for it on that element
  and its ancestors, with the same evaluation. When these rules are the rule set, in order,
  and \<open>reapplyAll\<close> returns (no predicate throws), the native event ends in the same state.
\<close>

theorem reapplyAll_as_native_event:
  assumes "map on_rule (listeners_for st d ''change'') = rules"
    and "reapplyAll E k rules st = Some (Returned st')"
  shows "native_event (apply_fuel E k 0) st d ''change'' = Some st'"
  using assms reapplyAll_run_listeners [of E k "listeners_for st d ''change''" st st']
  by (simp add: native_event_def)

theorem reapplyAll_as_native_event_witness:
  "map on_rule (listeners_for written_one 1 ''change'') = [rule_b] \<and>
   reapplyAll form_engine 1 [rule_b] written_one =
     Some (Returned (result_or form_state (reapplyAll form_engine 1 [rule_b] written_one))) \<and>
   native_event (apply_fuel form_engine 1 0) written_one 1 ''change'' =
     Some (result_or form_state (reapplyAll form_engine 1 [rule_b] written_one)) \<and>
   dispatched_in (native_event (apply_fuel form_engine 1 0) written_one 1 ''change'') =
     Some [(0, 5, ''change''), (0, 5, ''input'')]"
proof -
  have r: "returns (reapplyAll form_engine 1 [rule_b] written_one)" by code_simp
  have d: "dispatched_in (native_event (apply_fuel form_engine 1 0) written_one 1 ''change'') =
     Some [(0, 5, ''change''), (0, 5, ''input'')]" by code_simp
  have l: "map on_rule (listeners_for written_one 1 ''change'') = [rule_b]"
    using written_one_listeners by simp
  note e = returns_result [OF r, of form_state]
  from reapplyAll_as_native_event [OF l e] l e d show ?thesis by simp
qed

text \<open>
  C7 as stated fails. With the two rules installed and the field \<open>a\<close> set to \<open>"2"\<close> by a
  script, a native change event on \<open>a\<close> evaluates the first rule only, while \<open>reapplyAll\<close>
  also evaluates the second, which hides and clears the checkbox again and dispatches two
  more synthetic events.
\<close>

theorem reapplyAll_as_native_event_counterexample:
  "returns (setupConditionalFields id_matcher 1 [rule_b, rule_c] None form_state) \<and>
   dispatched_in (native_event (apply_fuel form_engine 1 0) written_two 1 ''change'') =
     Some [(0, 6, ''change''), (0, 6, ''input''), (0, 5, ''change''), (0, 5, ''input'')] \<and>
   returns (reapplyAll form_engine 1 [rule_b, rule_c] written_two) \<and>
   dispatched_in (Some (result_or form_state (reapplyAll form_engine 1 [rule_b, rule_c] written_two))) =
     Some [(0, 6, ''change''), (0, 6, ''input''), (0, 5, ''change''), (0, 5, ''input''),
           (0, 6, ''change''), (0, 6, ''input'')]"
  by code_simp

subsection \<open>Events that no listener of the engine hears\<close>





lemma listeners_for_dispatched [simp]:
  "listeners_for (st\<lparr>dispatched := d\<rparr>) n evt = listeners_for st n evt"
  by (simp add: listeners_for_def)






subsection \<open>Cleared elements\<close>











subsection \<open>Clearing\<close>








subsection \<open>Hiding with \<open>clearWhenHidden\<close>\<close>


lemma new_events_elems [simp]: "new_events (st\<lparr>elems := els\<rparr>) st' = new_events st st'"
  by (simp add: new_events_def)



end
